theory Spec2Isabelle
  imports Main
begin

section \<open>Data model\<close>

text \<open>
  The admin table (\<^verbatim>\<open>AdminAdvertisementSubmissionsManagement\<close>) and the lead-capture
  form (\<^verbatim>\<open>AdvertisementBanners\<close>) share the shape of a submission.  The form only
  ever fills the nine content fields; the admin table reads rows that also carry
  \<^verbatim>\<open>_id\<close>, \<^verbatim>\<open>status\<close> and the two timestamps.  JavaScript numbers that hold page
  numbers and counts are modelled as \<^typ>\<open>int\<close>; the bearer token is a constant prop
  and is left out of the requests.
\<close>

datatype status = New | Viewed | Contacted

record submission_fields =
  bannerType :: string
  fullName :: string
  email :: string
  phone :: string
  projectName :: string
  location :: string
  projectType :: string
  budget :: "string option"
  description :: string

record AdvertisementSubmission = submission_fields +
  sub_id :: string
  status :: status
  createdAt :: string
  updatedAt :: string

record Statistics =
  stat_total :: int
  stat_new :: int
  stat_viewed :: int
  stat_contacted :: int
  byBannerType :: "(string \<times> int) list"

datatype variant = Default | Destructive

record toast =
  title :: string
  message :: string
  variant :: variant

text \<open>
  What \<^verbatim>\<open>await fetch(...)\<close> followed by \<^verbatim>\<open>await response.json()\<close> can give: either
  one of the two promises rejects (network error, body that is not JSON), or a JSON
  body arrives, of which the code reads \<^verbatim>\<open>success\<close>, \<^verbatim>\<open>error\<close> and \<^verbatim>\<open>data\<close>.
\<close>

record 'a json_body =
  success :: bool
  error :: "string option"
  data :: "'a option"

datatype 'a fetch_result = Rejected | Json "'a json_body"

record pagination =
  pg_total :: int
  pg_pages :: int

record list_data =
  d_submissions :: "AdvertisementSubmission list"
  d_pagination :: "pagination option"

text \<open>The thirteen \<^verbatim>\<open>useState\<close> cells of the admin component.\<close>

record state =
  submissions :: "AdvertisementSubmission list"
  statistics :: "Statistics option"
  loading :: bool
  showDetailsDialog :: bool
  selectedSubmission :: "AdvertisementSubmission option"
  deleting :: bool
  updating :: bool
  search :: string
  filterStatus :: string
  filterBannerType :: string
  currentPage :: int
  totalPages :: int
  total :: int

datatype request =
    GetSubmissions "(string \<times> string) list"
  | GetStatistics
  | PutStatus string status
  | DeleteSubmission string

text \<open>
  A request that has been sent and not yet answered.  The continuations of
  \<^verbatim>\<open>handleStatusChange\<close> and \<^verbatim>\<open>handleDelete\<close> call \<^verbatim>\<open>fetchSubmissions\<close> of the render
  in which the handler was created, so they keep that render's state.
\<close>

datatype pending = ListFetch | StatisticsFetch | StatusUpdate state | Deletion state

record world =
  ui :: state
  toasts :: "toast list"
  console :: "string list"
  sent :: "request list"
  inflight :: "pending list"

section \<open>Effects\<close>

definition upd :: "(state \<Rightarrow> state) \<Rightarrow> world \<Rightarrow> world" where
  "upd f w = w\<lparr>ui := f (ui w)\<rparr>"

definition show_toast :: "toast \<Rightarrow> world \<Rightarrow> world" where
  "show_toast t w = w\<lparr>toasts := toasts w @ [t]\<rparr>"

definition console_error :: "string \<Rightarrow> world \<Rightarrow> world" where
  "console_error m w = w\<lparr>console := console w @ [m]\<rparr>"

definition fetch :: "request \<Rightarrow> pending \<Rightarrow> world \<Rightarrow> world" where
  "fetch r k w = w\<lparr>sent := sent w @ [r], inflight := inflight w @ [k]\<rparr>"

definition error_toast :: "string \<Rightarrow> toast" where
  "error_toast m = \<lparr>title = ''Error'', message = m, variant = Destructive\<rparr>"

definition success_toast :: "string \<Rightarrow> toast" where
  "success_toast m = \<lparr>title = ''Success'', message = m, variant = Default\<rparr>"

text \<open>\<^verbatim>\<open>data.error || fallback\<close>: a missing or empty message is falsy.\<close>

definition or_default :: "string option \<Rightarrow> string \<Rightarrow> string" where
  "or_default e d = (case e of None \<Rightarrow> d | Some m \<Rightarrow> if m = [] then d else m)"

section \<open>Query parameters\<close>

definition digit :: "nat \<Rightarrow> char" where
  "digit n = char_of (48 + n)"

function showNat :: "nat \<Rightarrow> string" where
  "showNat n = (if n < 10 then [digit n] else showNat (n div 10) @ [digit (n mod 10)])"
  by pat_completeness auto
termination
  by (relation "measure id") auto

declare showNat.simps [simp del]

definition toString :: "int \<Rightarrow> string" where
  "toString i = (if i < 0 then CHR ''-'' # showNat (nat (- i)) else showNat (nat i))"

text \<open>
  \<^verbatim>\<open>new URLSearchParams({page, limit})\<close> followed by the three conditional
  \<^verbatim>\<open>append\<close>s of \<^verbatim>\<open>fetchSubmissions\<close>; only the empty string is falsy.
\<close>

definition params :: "state \<Rightarrow> (string \<times> string) list" where
  "params c =
     (let p = [(''page'', toString (currentPage c)), (''limit'', ''10'')];
          p = (if search c \<noteq> [] then p @ [(''search'', search c)] else p);
          p = (if filterStatus c \<noteq> [] then p @ [(''status'', filterStatus c)] else p);
          p = (if filterBannerType c \<noteq> [] then p @ [(''bannerType'', filterBannerType c)] else p)
      in p)"

section \<open>The admin component\<close>

definition initial_state :: state where
  "initial_state =
     \<lparr>submissions = [], statistics = None, loading = True, showDetailsDialog = False,
      selectedSubmission = None, deleting = False, updating = False, search = [],
      filterStatus = [], filterBannerType = [], currentPage = 1, totalPages = 1, total = 0\<rparr>"

subsection \<open>fetchSubmissions\<close>

text \<open>
  Each \<^verbatim>\<open>async\<close> function is split at its \<^verbatim>\<open>await\<close>: the part that runs at the call
  (named as the source function, taking the render's state \<open>c\<close> that its closure
  reads) and the part that runs when the response is there (\<open>_resume\<close>).
\<close>

definition fetchSubmissions :: "state \<Rightarrow> world \<Rightarrow> world" where
  "fetchSubmissions c w =
     (let w = upd (\<lambda>s. s\<lparr>loading := True\<rparr>) w
      in fetch (GetSubmissions (params c)) ListFetch w)"

definition fetchSubmissions_catch :: "world \<Rightarrow> world" where
  "fetchSubmissions_catch w =
     show_toast (error_toast ''Failed to fetch submissions'')
       (console_error ''Error fetching submissions:'' w)"

definition fetchSubmissions_resume :: "list_data fetch_result \<Rightarrow> world \<Rightarrow> world" where
  "fetchSubmissions_resume r w =
     (let w =
        (case r of
           Rejected \<Rightarrow> fetchSubmissions_catch w
         | Json d \<Rightarrow>
             if success d then
               (case data d of
                  None \<Rightarrow> fetchSubmissions_catch w
                | Some p \<Rightarrow>
                    (let w = upd (\<lambda>s. s\<lparr>submissions := d_submissions p\<rparr>) w
                     in case d_pagination p of
                          None \<Rightarrow> fetchSubmissions_catch w
                        | Some pg \<Rightarrow>
                            upd (\<lambda>s. s\<lparr>totalPages := pg_pages pg\<rparr>)
                              (upd (\<lambda>s. s\<lparr>total := pg_total pg\<rparr>) w)))
             else show_toast (error_toast (or_default (error d) ''Failed to fetch submissions'')) w)
      in upd (\<lambda>s. s\<lparr>loading := False\<rparr>) w)"

subsection \<open>fetchStatistics\<close>

definition fetchStatistics :: "world \<Rightarrow> world" where
  "fetchStatistics w = fetch GetStatistics StatisticsFetch w"

definition fetchStatistics_resume :: "Statistics fetch_result \<Rightarrow> world \<Rightarrow> world" where
  "fetchStatistics_resume r w =
     (case r of
        Rejected \<Rightarrow> console_error ''Error fetching statistics:'' w
      | Json d \<Rightarrow> if success d then upd (\<lambda>s. s\<lparr>statistics := data d\<rparr>) w else w)"

subsection \<open>handleViewDetails, handleStatusChange, handleDelete\<close>

definition handleViewDetails :: "AdvertisementSubmission \<Rightarrow> world \<Rightarrow> world" where
  "handleViewDetails submission w =
     upd (\<lambda>s. s\<lparr>showDetailsDialog := True\<rparr>)
       (upd (\<lambda>s. s\<lparr>selectedSubmission := Some submission\<rparr>) w)"

definition handleStatusChange :: "state \<Rightarrow> string \<Rightarrow> status \<Rightarrow> world \<Rightarrow> world" where
  "handleStatusChange c submissionId newStatus w =
     (let w = upd (\<lambda>s. s\<lparr>updating := True\<rparr>) w
      in fetch (PutStatus submissionId newStatus) (StatusUpdate c) w)"

definition handleStatusChange_resume :: "state \<Rightarrow> unit fetch_result \<Rightarrow> world \<Rightarrow> world" where
  "handleStatusChange_resume c r w =
     (let w =
        (case r of
           Rejected \<Rightarrow>
             show_toast (error_toast ''Failed to update status'')
               (console_error ''Error updating status:'' w)
         | Json d \<Rightarrow>
             if success d then
               fetchStatistics (fetchSubmissions c
                 (show_toast (success_toast ''Status updated successfully'') w))
             else show_toast (error_toast (or_default (error d) ''Failed to update status'')) w)
      in upd (\<lambda>s. s\<lparr>updating := False\<rparr>) w)"

text \<open>\<open>confirmed\<close> is what the browser's \<^verbatim>\<open>confirm\<close> dialog returned.\<close>

definition handleDelete :: "state \<Rightarrow> string \<Rightarrow> bool \<Rightarrow> world \<Rightarrow> world" where
  "handleDelete c submissionId confirmed w =
     (if \<not> confirmed then w
      else let w = upd (\<lambda>s. s\<lparr>deleting := True\<rparr>) w
           in fetch (DeleteSubmission submissionId) (Deletion c) w)"

definition handleDelete_resume :: "state \<Rightarrow> unit fetch_result \<Rightarrow> world \<Rightarrow> world" where
  "handleDelete_resume c r w =
     (let w =
        (case r of
           Rejected \<Rightarrow>
             show_toast (error_toast ''Failed to delete submission'')
               (console_error ''Error deleting submission:'' w)
         | Json d \<Rightarrow>
             if success d then
               fetchStatistics (fetchSubmissions c
                 (show_toast (success_toast ''Submission deleted successfully'') w))
             else show_toast (error_toast (or_default (error d) ''Failed to delete submission'')) w)
      in upd (\<lambda>s. s\<lparr>deleting := False\<rparr>) w)"

subsection \<open>Filters, search and pagination\<close>

text \<open>
  The search box's \<^verbatim>\<open>onChange\<close> calls \<^verbatim>\<open>setSearch\<close> and \<^verbatim>\<open>setCurrentPage(1)\<close>; the two
  selects pass \<^verbatim>\<open>setFilterStatus\<close> and \<^verbatim>\<open>setFilterBannerType\<close> themselves as
  \<^verbatim>\<open>onValueChange\<close>.
\<close>

definition search_onChange :: "string \<Rightarrow> world \<Rightarrow> world" where
  "search_onChange v w =
     upd (\<lambda>s. s\<lparr>currentPage := 1\<rparr>) (upd (\<lambda>s. s\<lparr>search := v\<rparr>) w)"

definition setFilterStatus :: "string \<Rightarrow> world \<Rightarrow> world" where
  "setFilterStatus v w = upd (\<lambda>s. s\<lparr>filterStatus := v\<rparr>) w"

definition setFilterBannerType :: "string \<Rightarrow> world \<Rightarrow> world" where
  "setFilterBannerType v w = upd (\<lambda>s. s\<lparr>filterBannerType := v\<rparr>) w"

text \<open>The two pagination buttons; \<open>c\<close> is the render whose closure the click runs.\<close>

definition prev_onClick :: "state \<Rightarrow> world \<Rightarrow> world" where
  "prev_onClick c w = upd (\<lambda>s. s\<lparr>currentPage := max 1 (currentPage c - 1)\<rparr>) w"

definition next_onClick :: "state \<Rightarrow> world \<Rightarrow> world" where
  "next_onClick c w =
     upd (\<lambda>s. s\<lparr>currentPage := min (totalPages c) (currentPage c + 1)\<rparr>) w"

text \<open>The two numbers of the line \<^verbatim>\<open>Showing a to b of total submissions\<close>.\<close>

definition showingFrom :: "state \<Rightarrow> int" where
  "showingFrom s = (currentPage s - 1) * 10 + 1"

definition showingTo :: "state \<Rightarrow> int" where
  "showingTo s = min (currentPage s * 10) (total s)"

subsection \<open>What is rendered\<close>

text \<open>
  The card body shows a spinner while \<^verbatim>\<open>loading\<close>, a "no submissions" line for an empty
  list, and the table otherwise; the pagination bar sits under the table and only when
  \<^verbatim>\<open>totalPages > 1\<close>.  Every row's status select gets \<^verbatim>\<open>disabled={updating}\<close> and every
  row's delete button \<^verbatim>\<open>disabled={deleting}\<close>.
\<close>

definition tableShown :: "state \<Rightarrow> bool" where
  "tableShown s = (\<not> loading s \<and> submissions s \<noteq> [])"

definition paginationShown :: "state \<Rightarrow> bool" where
  "paginationShown s = (tableShown s \<and> totalPages s > 1)"

record row_controls =
  row :: AdvertisementSubmission
  statusSelectDisabled :: bool
  deleteDisabled :: bool

definition tableRows :: "state \<Rightarrow> row_controls list" where
  "tableRows s =
     (if loading s then []
      else map (\<lambda>submission.
                  \<lparr>row = submission, statusSelectDisabled = updating s,
                   deleteDisabled = deleting s\<rparr>) (submissions s))"

subsection \<open>The effect hook and the events of the component\<close>

text \<open>
  \<^verbatim>\<open>useEffect(..., [search, filterStatus, filterBannerType, currentPage])\<close> runs after the
  first render and after every render in which one of the four values differs from
  the render before; it calls \<^verbatim>\<open>fetchSubmissions\<close> and \<^verbatim>\<open>fetchStatistics\<close> of the new
  render.
\<close>

definition deps :: "state \<Rightarrow> string \<times> string \<times> string \<times> int" where
  "deps s = (search s, filterStatus s, filterBannerType s, currentPage s)"

definition useEffect :: "state \<Rightarrow> world \<Rightarrow> world" where
  "useEffect prior w =
     (if deps (ui w) = deps prior then w
      else fetchStatistics (fetchSubmissions (ui w) w))"

definition mount :: world where
  "mount =
     fetchStatistics (fetchSubmissions initial_state
       \<lparr>ui = initial_state, toasts = [], console = [], sent = [], inflight = []\<rparr>)"

datatype response =
    ListResponse "list_data fetch_result"
  | StatisticsResponse "Statistics fetch_result"
  | MutationResponse "unit fetch_result"

datatype event =
    SearchInput string
  | StatusFilterSelect string
  | BannerTypeFilterSelect string
  | PrevClick
  | NextClick
  | ViewClick nat
  | RowStatusSelect nat status
  | DeleteClick nat bool
  | DialogOpenChange bool
  | Response nat response

definition remove_nth :: "nat \<Rightarrow> 'a list \<Rightarrow> 'a list" where
  "remove_nth i xs = take i xs @ drop (Suc i) xs"

fun resume :: "pending \<Rightarrow> response \<Rightarrow> world \<Rightarrow> world option" where
  "resume ListFetch (ListResponse r) w = Some (fetchSubmissions_resume r w)"
| "resume StatisticsFetch (StatisticsResponse r) w = Some (fetchStatistics_resume r w)"
| "resume (StatusUpdate c) (MutationResponse r) w = Some (handleStatusChange_resume c r w)"
| "resume (Deletion c) (MutationResponse r) w = Some (handleDelete_resume c r w)"
| "resume _ _ _ = None"

text \<open>
  One event of the page.  An event that the rendered page does not offer (a control
  that is not rendered or is disabled, a response to a request that is not in flight)
  gives \<open>None\<close>.  Rows are addressed by their index in the displayed list, requests in
  flight by their index in \<open>inflight\<close>, so responses may arrive in any order.
\<close>

fun step :: "event \<Rightarrow> world \<Rightarrow> world option" where
  "step (SearchInput v) w = Some (useEffect (ui w) (search_onChange v w))"
| "step (StatusFilterSelect v) w = Some (useEffect (ui w) (setFilterStatus v w))"
| "step (BannerTypeFilterSelect v) w = Some (useEffect (ui w) (setFilterBannerType v w))"
| "step PrevClick w =
     (if paginationShown (ui w) \<and> currentPage (ui w) \<noteq> 1
      then Some (useEffect (ui w) (prev_onClick (ui w) w)) else None)"
| "step NextClick w =
     (if paginationShown (ui w) \<and> currentPage (ui w) \<noteq> totalPages (ui w)
      then Some (useEffect (ui w) (next_onClick (ui w) w)) else None)"
| "step (ViewClick i) w =
     (if tableShown (ui w) \<and> i < length (submissions (ui w))
      then Some (handleViewDetails (submissions (ui w) ! i) w) else None)"
| "step (RowStatusSelect i newStatus) w =
     (if tableShown (ui w) \<and> i < length (submissions (ui w)) \<and> \<not> updating (ui w)
      then Some (handleStatusChange (ui w) (sub_id (submissions (ui w) ! i)) newStatus w)
      else None)"
| "step (DeleteClick i confirmed) w =
     (if tableShown (ui w) \<and> i < length (submissions (ui w)) \<and> \<not> deleting (ui w)
      then Some (handleDelete (ui w) (sub_id (submissions (ui w) ! i)) confirmed w)
      else None)"
| "step (DialogOpenChange b) w = Some (upd (\<lambda>s. s\<lparr>showDetailsDialog := b\<rparr>) w)"
| "step (Response i r) w =
     (if i < length (inflight w)
      then resume (inflight w ! i) r (w\<lparr>inflight := remove_nth i (inflight w)\<rparr>)
      else None)"

fun run :: "event list \<Rightarrow> world \<Rightarrow> world option" where
  "run [] w = Some w"
| "run (e # es) w = (case step e w of None \<Rightarrow> None | Some w' \<Rightarrow> run es w')"

text \<open>How many status updates, and how many deletions, wait for their answer.\<close>

fun isStatusUpdate :: "pending \<Rightarrow> bool" where
  "isStatusUpdate (StatusUpdate _) = True"
| "isStatusUpdate _ = False"

fun isDeletion :: "pending \<Rightarrow> bool" where
  "isDeletion (Deletion _) = True"
| "isDeletion _ = False"

definition statusUpdatesInFlight :: "world \<Rightarrow> nat" where
  "statusUpdatesInFlight w = length (filter isStatusUpdate (inflight w))"

definition deletionsInFlight :: "world \<Rightarrow> nat" where
  "deletionsInFlight w = length (filter isDeletion (inflight w))"

section \<open>The lead-capture form\<close>

text \<open>
  \<^verbatim>\<open>AdvertisementBanners\<close>: four cards open one dialog with a form.  Of a banner only the
  fields the handlers read are kept.  The component's \<^verbatim>\<open>loading\<close> cell is \<open>form_loading\<close>
  here, next to the admin component's.
\<close>

record AdvertisementBanner =
  banner_id :: string
  banner_title :: string
  banner_type :: string

record form_state =
  selectedBanner :: "AdvertisementBanner option"
  showForm :: bool
  form_loading :: bool
  formData :: submission_fields

datatype form_request = PostSubmission submission_fields

record form_world =
  form_ui :: form_state
  form_toasts :: "toast list"
  form_console :: "string list"
  form_sent :: "form_request list"

definition form_upd :: "(form_state \<Rightarrow> form_state) \<Rightarrow> form_world \<Rightarrow> form_world" where
  "form_upd f w = w\<lparr>form_ui := f (form_ui w)\<rparr>"

definition form_toast :: "toast \<Rightarrow> form_world \<Rightarrow> form_world" where
  "form_toast t w = w\<lparr>form_toasts := form_toasts w @ [t]\<rparr>"

definition initial_form_state :: form_state where
  "initial_form_state =
     \<lparr>selectedBanner = None, showForm = False, form_loading = False,
      formData = \<lparr>bannerType = [], fullName = [], email = [], phone = [], projectName = [],
                  location = [], projectType = [], budget = Some [], description = []\<rparr>\<rparr>"

definition handleBannerClick :: "AdvertisementBanner \<Rightarrow> form_world \<Rightarrow> form_world" where
  "handleBannerClick banner w =
     (let w = form_upd (\<lambda>s. s\<lparr>selectedBanner := Some banner\<rparr>) w;
          w = form_upd (\<lambda>s. s\<lparr>formData :=
                \<lparr>bannerType = banner_type banner, fullName = [], email = [], phone = [],
                 projectName = [], location = [], projectType = banner_type banner,
                 budget = Some [], description = []\<rparr>\<rparr>) w
      in form_upd (\<lambda>s. s\<lparr>showForm := True\<rparr>) w)"

datatype field =
    FullName | Email | Phone | ProjectName | Location | Budget | Description

definition handleInputChange :: "field \<Rightarrow> string \<Rightarrow> form_world \<Rightarrow> form_world" where
  "handleInputChange f v w =
     form_upd (\<lambda>s. s\<lparr>formData :=
        (case f of
           FullName \<Rightarrow> (formData s)\<lparr>fullName := v\<rparr>
         | Email \<Rightarrow> (formData s)\<lparr>email := v\<rparr>
         | Phone \<Rightarrow> (formData s)\<lparr>phone := v\<rparr>
         | ProjectName \<Rightarrow> (formData s)\<lparr>projectName := v\<rparr>
         | Location \<Rightarrow> (formData s)\<lparr>location := v\<rparr>
         | Budget \<Rightarrow> (formData s)\<lparr>budget := Some v\<rparr>
         | Description \<Rightarrow> (formData s)\<lparr>description := v\<rparr>)\<rparr>) w"

text \<open>
  \<^verbatim>\<open>handleSubmit\<close> up to its \<^verbatim>\<open>await\<close>; \<open>c\<close> is the render whose \<^verbatim>\<open>formData\<close> the closure
  reads.  \<^verbatim>\<open>!x\<close> of a string is true for the empty string only.
\<close>

definition handleSubmit :: "form_state \<Rightarrow> form_world \<Rightarrow> form_world" where
  "handleSubmit c w =
     (if fullName (formData c) = [] \<or> email (formData c) = [] \<or> phone (formData c) = [] \<or>
         projectName (formData c) = [] \<or> location (formData c) = [] \<or>
         description (formData c) = []
      then form_toast (error_toast ''Please fill in all required fields'') w
      else let w = form_upd (\<lambda>s. s\<lparr>form_loading := True\<rparr>) w
           in w\<lparr>form_sent := form_sent w @ [PostSubmission (formData c)]\<rparr>)"

definition handleSubmit_resume :: "unit fetch_result \<Rightarrow> form_world \<Rightarrow> form_world" where
  "handleSubmit_resume r w =
     (let w =
        (case r of
           Rejected \<Rightarrow>
             form_toast (error_toast ''Failed to submit your request. Please try again.'')
               (w\<lparr>form_console := form_console w @ [''Error submitting form:'']\<rparr>)
         | Json d \<Rightarrow>
             if success d then
               form_upd (\<lambda>s. s\<lparr>selectedBanner := None\<rparr>)
                 (form_upd (\<lambda>s. s\<lparr>showForm := False\<rparr>)
                   (form_toast (success_toast ''Your submission has been sent to our sales team'') w))
             else form_toast (error_toast (or_default (error d) ''Failed to submit form'')) w)
      in form_upd (\<lambda>s. s\<lparr>form_loading := False\<rparr>) w)"

section \<open>Sample data\<close>

text \<open>Concrete rows, responses and event sequences at which the theorems are evaluated.\<close>

definition sample_row :: AdvertisementSubmission where
  "sample_row =
     \<lparr>bannerType = ''residential'', fullName = ''Asha'', email = ''asha@example.com'',
      phone = ''9000000000'', projectName = ''Green Homes'', location = ''Sector 2'',
      projectType = ''residential'', budget = None, description = ''Flats'',
      sub_id = ''s1'', status = New, createdAt = ''2024-01-01'', updatedAt = ''2024-01-01''\<rparr>"

definition list_ok :: "AdvertisementSubmission list \<Rightarrow> int \<Rightarrow> int \<Rightarrow> response" where
  "list_ok rows t p =
     ListResponse (Json \<lparr>success = True, error = None,
       data = Some \<lparr>d_submissions = rows, d_pagination = Some \<lparr>pg_total = t, pg_pages = p\<rparr>\<rparr>\<rparr>)"

definition refused :: "string option \<Rightarrow> 'a fetch_result" where
  "refused e = Json \<lparr>success = False, error = e, data = None\<rparr>"

definition accepted :: "unit fetch_result" where
  "accepted = Json \<lparr>success = True, error = None, data = None\<rparr>"

definition page_in_range :: "world \<Rightarrow> bool" where
  "page_in_range w = (1 \<le> currentPage (ui w) \<and> currentPage (ui w) \<le> totalPages (ui w))"

definition page_and_pages :: "world \<Rightarrow> int \<times> int" where
  "page_and_pages w = (currentPage (ui w), totalPages (ui w))"

definition filter_and_page :: "world \<Rightarrow> string \<times> int" where
  "filter_and_page w = (filterStatus (ui w), currentPage (ui w))"

text \<open>
  Three pages of results; the admin walks to page 3 and then picks a status filter.
\<close>

definition page3_trace :: "event list" where
  "page3_trace =
     [Response 0 (list_ok [sample_row] 23 3),
      NextClick, Response 1 (list_ok [sample_row] 23 3),
      NextClick, Response 2 (list_ok [sample_row] 23 3)]"

text \<open>
  A list response that arrives late.  The admin picks the status filter \<^verbatim>\<open>new\<close> and
  clears it again at once; the answer to the second request (45 rows, 5 pages) comes
  first, the admin walks to page 5, and then the answer to the first request (12 rows,
  2 pages, its first page of rows) arrives.
\<close>

definition stale_trace :: "event list" where
  "stale_trace =
     [Response 0 (list_ok [sample_row] 45 5),
      StatusFilterSelect ''new'',
      StatusFilterSelect [],
      Response 3 (list_ok [sample_row] 45 5),
      NextClick, Response 4 (list_ok [sample_row] 45 5),
      NextClick, Response 5 (list_ok [sample_row] 45 5),
      NextClick, Response 6 (list_ok [sample_row] 45 5),
      NextClick, Response 7 (list_ok [sample_row] 45 5),
      Response 1 (list_ok [sample_row] 12 2)]"

definition stale_world :: world where
  "stale_world = (case run stale_trace mount of Some w \<Rightarrow> w | None \<Rightarrow> mount)"

text \<open>One row on the page; its status is changed and, before the answer, it is deleted.\<close>

definition busy_trace :: "event list" where
  "busy_trace =
     [Response 0 (list_ok [sample_row] 1 1), RowStatusSelect 0 Viewed, DeleteClick 0 True]"

definition busy_world :: world where
  "busy_world = (case run busy_trace mount of Some w \<Rightarrow> w | None \<Rightarrow> mount)"

definition sample_form :: submission_fields where
  "sample_form =
     \<lparr>bannerType = ''commercial'', fullName = ''Ravi'', email = ''ravi@example.com'',
      phone = ''9111111111'', projectName = ''City Mall'', location = ''Model Town'',
      projectType = [], budget = Some [], description = ''Shops''\<rparr>"

definition form_world_of :: "submission_fields \<Rightarrow> form_world" where
  "form_world_of f =
     \<lparr>form_ui = initial_form_state\<lparr>showForm := True, formData := f\<rparr>,
      form_toasts = [], form_console = [], form_sent = []\<rparr>"

text \<open>
  The display arithmetic in the spec's words, with the page size a parameter:
  \<open>offsetStart = (page - 1) * pageSize + 1\<close>, \<open>offsetEnd = min (page * pageSize) total\<close>.
\<close>

definition spec_offsetStart :: "int \<Rightarrow> int \<Rightarrow> int" where
  "spec_offsetStart page pageSize = (page - 1) * pageSize + 1"

definition spec_offsetEnd :: "int \<Rightarrow> int \<Rightarrow> int \<Rightarrow> int" where
  "spec_offsetEnd page pageSize tot = min (page * pageSize) tot"

text \<open>Page 2 of 3, as reached from the first page.\<close>

definition page2_world :: world where
  "page2_world = (case run (take 3 page3_trace) mount of Some w \<Rightarrow> w | None \<Rightarrow> mount)"

text \<open>The state after an event, for events that the page offers.\<close>

definition after_event :: "event \<Rightarrow> world \<Rightarrow> world" where
  "after_event e w = (case step e w of Some w' \<Rightarrow> w' | None \<Rightarrow> w)"

text \<open>
  A page change while a mutation waits for its answer.  On page 1 of 3 the admin
  changes the status of the first row (or deletes it), goes on to page 2, and then the
  store accepts the mutation.
\<close>

definition status_race_trace :: "event list" where
  "status_race_trace =
     [Response 0 (list_ok [sample_row] 23 3), RowStatusSelect 0 Viewed, NextClick,
      Response 1 (MutationResponse accepted)]"

definition delete_race_trace :: "event list" where
  "delete_race_trace =
     [Response 0 (list_ok [sample_row] 23 3), DeleteClick 0 True, NextClick,
      Response 1 (MutationResponse accepted)]"

text \<open>The last two requests sent, and the query string of the state now displayed.\<close>

definition last_two_sent :: "world \<Rightarrow> request list" where
  "last_two_sent w = drop (length (sent w) - 2) (sent w)"

definition current_query :: "world \<Rightarrow> (string \<times> string) list" where
  "current_query w = params (ui w)"

text \<open>
  The bookkeeping behind the two flags: \<^verbatim>\<open>updating\<close> is set exactly while one status
  update waits for its answer, \<^verbatim>\<open>deleting\<close> exactly while one deletion does.
\<close>

definition flags_match :: "world \<Rightarrow> bool" where
  "flags_match w =
     (statusUpdatesInFlight w = (if updating (ui w) then 1 else 0) \<and>
      deletionsInFlight w = (if deleting (ui w) then 1 else 0))"

section \<open>Auxiliary facts\<close>

lemmas effect_defs = upd_def show_toast_def console_error_def fetch_def

lemma toString_1: "toString 1 = ''1''"
  by code_simp

lemma search_onChange_resets_page: "currentPage (ui (search_onChange v w)) = 1"
  by (simp add: search_onChange_def upd_def)

lemma setFilterStatus_page: "currentPage (ui (setFilterStatus v w)) = currentPage (ui w)"
  by (simp add: setFilterStatus_def upd_def)

lemma setFilterBannerType_page:
  "currentPage (ui (setFilterBannerType v w)) = currentPage (ui w)"
  by (simp add: setFilterBannerType_def upd_def)

lemma stale_reached: "run stale_trace mount = Some stale_world"
  unfolding stale_world_def by code_simp

lemma busy_reached: "run busy_trace mount = Some busy_world"
  unfolding busy_world_def by code_simp

lemma busy_both: "0 < statusUpdatesInFlight busy_world \<and> 0 < deletionsInFlight busy_world"
  unfolding busy_world_def by code_simp

subsection \<open>The flags follow the requests in flight\<close>

lemma filter_remove_nth:
  assumes "i < length xs"
  shows "length (filter P (remove_nth i xs)) = length (filter P xs) - (if P (xs ! i) then 1 else 0)"
proof -
  have "xs = take i xs @ xs ! i # drop (Suc i) xs"
    using assms by (rule id_take_nth_drop)
  then have "filter P xs = filter P (take i xs) @ filter P [xs ! i] @ filter P (drop (Suc i) xs)"
    by (metis append_Cons append_Nil filter_append)
  then show ?thesis
    by (simp add: remove_nth_def)
qed

lemma flags_match_mount: "flags_match mount"
  by (simp add: flags_match_def mount_def statusUpdatesInFlight_def deletionsInFlight_def
        fetchStatistics_def fetchSubmissions_def effect_defs initial_state_def)

lemma flags_match_fetchSubmissions: "flags_match (fetchSubmissions c w) = flags_match w"
  by (simp add: flags_match_def statusUpdatesInFlight_def deletionsInFlight_def
        fetchSubmissions_def effect_defs)

lemma flags_match_fetchStatistics: "flags_match (fetchStatistics w) = flags_match w"
  by (simp add: flags_match_def statusUpdatesInFlight_def deletionsInFlight_def
        fetchStatistics_def effect_defs)

lemma flags_match_useEffect: "flags_match (useEffect c w) = flags_match w"
  by (simp add: useEffect_def flags_match_fetchSubmissions flags_match_fetchStatistics)

lemma flags_match_query:
  "flags_match (upd (\<lambda>s. s\<lparr>search := v\<rparr>) w) = flags_match w"
  "flags_match (upd (\<lambda>s. s\<lparr>currentPage := n\<rparr>) w) = flags_match w"
  "flags_match (upd (\<lambda>s. s\<lparr>filterStatus := v\<rparr>) w) = flags_match w"
  "flags_match (upd (\<lambda>s. s\<lparr>filterBannerType := v\<rparr>) w) = flags_match w"
  "flags_match (upd (\<lambda>s. s\<lparr>showDetailsDialog := b\<rparr>) w) = flags_match w"
  "flags_match (upd (\<lambda>s. s\<lparr>selectedSubmission := x\<rparr>) w) = flags_match w"
  by (simp_all add: flags_match_def statusUpdatesInFlight_def deletionsInFlight_def upd_def)

lemma flags_match_fetchSubmissions_resume:
  "flags_match (fetchSubmissions_resume r w) = flags_match w"
  by (simp add: flags_match_def statusUpdatesInFlight_def deletionsInFlight_def
        fetchSubmissions_resume_def fetchSubmissions_catch_def effect_defs Let_def
      split: fetch_result.splits option.splits)

lemma flags_match_fetchStatistics_resume:
  "flags_match (fetchStatistics_resume r w) = flags_match w"
  by (simp add: flags_match_def statusUpdatesInFlight_def deletionsInFlight_def
        fetchStatistics_resume_def effect_defs split: fetch_result.splits)

lemma handleStatusChange_flags:
  "statusUpdatesInFlight (handleStatusChange c i st w) = Suc (statusUpdatesInFlight w)"
  "deletionsInFlight (handleStatusChange c i st w) = deletionsInFlight w"
  "updating (ui (handleStatusChange c i st w)) = True"
  "deleting (ui (handleStatusChange c i st w)) = deleting (ui w)"
  by (simp_all add: statusUpdatesInFlight_def deletionsInFlight_def handleStatusChange_def
        effect_defs)

lemma handleDelete_flags:
  "statusUpdatesInFlight (handleDelete c i True w) = statusUpdatesInFlight w"
  "deletionsInFlight (handleDelete c i True w) = Suc (deletionsInFlight w)"
  "deleting (ui (handleDelete c i True w)) = True"
  "updating (ui (handleDelete c i True w)) = updating (ui w)"
  "handleDelete c i False w = w"
  by (simp_all add: statusUpdatesInFlight_def deletionsInFlight_def handleDelete_def
        effect_defs)

lemma flags_match_handleStatusChange:
  "flags_match w \<Longrightarrow> \<not> updating (ui w) \<Longrightarrow> flags_match (handleStatusChange c i st w)"
  by (simp add: flags_match_def handleStatusChange_flags)

lemma flags_match_handleDelete:
  "flags_match w \<Longrightarrow> \<not> deleting (ui w) \<Longrightarrow> flags_match (handleDelete c i ok w)"
  by (cases ok) (simp_all add: flags_match_def handleDelete_flags)

lemma in_flight_after_remove:
  assumes "i < length (inflight w)"
  shows "statusUpdatesInFlight (w\<lparr>inflight := remove_nth i (inflight w)\<rparr>) =
           statusUpdatesInFlight w - (if isStatusUpdate (inflight w ! i) then 1 else 0)"
    and "deletionsInFlight (w\<lparr>inflight := remove_nth i (inflight w)\<rparr>) =
           deletionsInFlight w - (if isDeletion (inflight w ! i) then 1 else 0)"
  using assms
  by (simp_all add: statusUpdatesInFlight_def deletionsInFlight_def filter_remove_nth)

lemma in_flight_positive:
  assumes "i < length (inflight w)"
  shows "inflight w ! i = StatusUpdate c \<Longrightarrow> 0 < statusUpdatesInFlight w"
    and "inflight w ! i = Deletion c \<Longrightarrow> 0 < deletionsInFlight w"
proof -
  have m: "inflight w ! i \<in> set (inflight w)"
    using assms by (rule nth_mem)
  show "inflight w ! i = StatusUpdate c \<Longrightarrow> 0 < statusUpdatesInFlight w"
    using m by (force simp add: statusUpdatesInFlight_def filter_empty_conv)
  show "inflight w ! i = Deletion c \<Longrightarrow> 0 < deletionsInFlight w"
    using m by (force simp add: deletionsInFlight_def filter_empty_conv)
qed

lemma handleStatusChange_resume_flags:
  "statusUpdatesInFlight (handleStatusChange_resume c r v) = statusUpdatesInFlight v"
  "deletionsInFlight (handleStatusChange_resume c r v) = deletionsInFlight v"
  "updating (ui (handleStatusChange_resume c r v)) = False"
  "deleting (ui (handleStatusChange_resume c r v)) = deleting (ui v)"
  by (simp_all add: statusUpdatesInFlight_def deletionsInFlight_def
        handleStatusChange_resume_def fetchSubmissions_def fetchStatistics_def effect_defs
        Let_def split: fetch_result.splits)

lemma handleDelete_resume_flags:
  "statusUpdatesInFlight (handleDelete_resume c r v) = statusUpdatesInFlight v"
  "deletionsInFlight (handleDelete_resume c r v) = deletionsInFlight v"
  "deleting (ui (handleDelete_resume c r v)) = False"
  "updating (ui (handleDelete_resume c r v)) = updating (ui v)"
  by (simp_all add: statusUpdatesInFlight_def deletionsInFlight_def
        handleDelete_resume_def fetchSubmissions_def fetchStatistics_def effect_defs
        Let_def split: fetch_result.splits)

lemma status_answer:
  assumes "flags_match w" and "i < length (inflight w)" and "inflight w ! i = StatusUpdate c"
  shows "flags_match (handleStatusChange_resume c r (w\<lparr>inflight := remove_nth i (inflight w)\<rparr>))"
    and "statusUpdatesInFlight
           (handleStatusChange_resume c r (w\<lparr>inflight := remove_nth i (inflight w)\<rparr>)) = 0"
proof -
  have pos: "0 < statusUpdatesInFlight w"
    using assms(2,3) by (rule in_flight_positive)
  with assms(1) have one: "statusUpdatesInFlight w = 1"
    by (simp add: flags_match_def split: if_splits)
  have del: "deletionsInFlight w = (if deleting (ui w) then 1 else 0)"
    using assms(1) by (simp add: flags_match_def)
  show "statusUpdatesInFlight
           (handleStatusChange_resume c r (w\<lparr>inflight := remove_nth i (inflight w)\<rparr>)) = 0"
    using one assms(2,3) by (simp add: handleStatusChange_resume_flags in_flight_after_remove)
  then show "flags_match (handleStatusChange_resume c r (w\<lparr>inflight := remove_nth i (inflight w)\<rparr>))"
    using del assms(2,3)
    by (simp add: flags_match_def handleStatusChange_resume_flags in_flight_after_remove)
qed

lemma delete_answer:
  assumes "flags_match w" and "i < length (inflight w)" and "inflight w ! i = Deletion c"
  shows "flags_match (handleDelete_resume c r (w\<lparr>inflight := remove_nth i (inflight w)\<rparr>))"
    and "deletionsInFlight
           (handleDelete_resume c r (w\<lparr>inflight := remove_nth i (inflight w)\<rparr>)) = 0"
proof -
  have pos: "0 < deletionsInFlight w"
    using assms(2,3) by (rule in_flight_positive)
  with assms(1) have one: "deletionsInFlight w = 1"
    by (simp add: flags_match_def split: if_splits)
  have upd: "statusUpdatesInFlight w = (if updating (ui w) then 1 else 0)"
    using assms(1) by (simp add: flags_match_def)
  show "deletionsInFlight
           (handleDelete_resume c r (w\<lparr>inflight := remove_nth i (inflight w)\<rparr>)) = 0"
    using one assms(2,3) by (simp add: handleDelete_resume_flags in_flight_after_remove)
  then show "flags_match (handleDelete_resume c r (w\<lparr>inflight := remove_nth i (inflight w)\<rparr>))"
    using upd assms(2,3)
    by (simp add: flags_match_def handleDelete_resume_flags in_flight_after_remove)
qed

lemma flags_match_remove_other:
  assumes "flags_match w" and "i < length (inflight w)"
    and "inflight w ! i = ListFetch \<or> inflight w ! i = StatisticsFetch"
  shows "flags_match (w\<lparr>inflight := remove_nth i (inflight w)\<rparr>)"
  using assms by (auto simp add: flags_match_def in_flight_after_remove)

lemma flags_match_step:
  assumes "flags_match w" and "step e w = Some w'"
  shows "flags_match w'"
proof (cases e)
  case (Response i r)
  with assms(2) have i: "i < length (inflight w)"
    and res: "resume (inflight w ! i) r (w\<lparr>inflight := remove_nth i (inflight w)\<rparr>) = Some w'"
    by (simp_all split: if_splits)
  show ?thesis
  proof (cases "inflight w ! i")
    case ListFetch
    with res obtain a
      where "w' = fetchSubmissions_resume a (w\<lparr>inflight := remove_nth i (inflight w)\<rparr>)"
      by (cases r) auto
    then show ?thesis
      using assms(1) i ListFetch
      by (simp add: flags_match_fetchSubmissions_resume flags_match_remove_other)
  next
    case StatisticsFetch
    with res obtain a
      where "w' = fetchStatistics_resume a (w\<lparr>inflight := remove_nth i (inflight w)\<rparr>)"
      by (cases r) auto
    then show ?thesis
      using assms(1) i StatisticsFetch
      by (simp add: flags_match_fetchStatistics_resume flags_match_remove_other)
  next
    case (StatusUpdate c)
    with res obtain a
      where "w' = handleStatusChange_resume c a (w\<lparr>inflight := remove_nth i (inflight w)\<rparr>)"
      by (cases r) auto
    then show ?thesis
      using status_answer(1) [OF assms(1) i StatusUpdate] by simp
  next
    case (Deletion c)
    with res obtain a
      where "w' = handleDelete_resume c a (w\<lparr>inflight := remove_nth i (inflight w)\<rparr>)"
      by (cases r) auto
    then show ?thesis
      using delete_answer(1) [OF assms(1) i Deletion] by simp
  qed
qed (insert assms, auto simp add: flags_match_useEffect flags_match_query search_onChange_def
      setFilterStatus_def setFilterBannerType_def prev_onClick_def next_onClick_def
      handleViewDetails_def flags_match_handleStatusChange flags_match_handleDelete
      split: if_splits)

lemma flags_match_run:
  "flags_match w \<Longrightarrow> run es w = Some w' \<Longrightarrow> flags_match w'"
proof (induction es arbitrary: w)
  case Nil
  then show ?case by simp
next
  case (Cons e es)
  then show ?case
    by (auto split: option.splits dest: flags_match_step)
qed

lemma rows_disabled:
  "updating s \<Longrightarrow> \<forall>x \<in> set (tableRows s). statusSelectDisabled x"
  "deleting s \<Longrightarrow> \<forall>x \<in> set (tableRows s). deleteDisabled x"
  by (auto simp add: tableRows_def)

subsection \<open>The page number along the events\<close>

lemma page_useEffect:
  "currentPage (ui (useEffect c w)) = currentPage (ui w)"
  "totalPages (ui (useEffect c w)) = totalPages (ui w)"
  by (simp_all add: useEffect_def fetchSubmissions_def fetchStatistics_def effect_defs)

lemma resume_page:
  "resume k r v = Some w' \<Longrightarrow> currentPage (ui w') = currentPage (ui v)"
  by (cases k; cases r)
     (auto simp add: fetchSubmissions_resume_def fetchSubmissions_catch_def
        fetchStatistics_resume_def handleStatusChange_resume_def handleDelete_resume_def
        fetchSubmissions_def fetchStatistics_def effect_defs Let_def
      split: fetch_result.splits option.splits)

lemma step_page:
  assumes "step e w = Some w'"
  shows "currentPage (ui w') =
           (case e of
              SearchInput _ \<Rightarrow> 1
            | PrevClick \<Rightarrow> max 1 (currentPage (ui w) - 1)
            | NextClick \<Rightarrow> min (totalPages (ui w)) (currentPage (ui w) + 1)
            | _ \<Rightarrow> currentPage (ui w))"
proof (cases e)
  case (Response i r)
  with assms have "resume (inflight w ! i) r (w\<lparr>inflight := remove_nth i (inflight w)\<rparr>) = Some w'"
    by (simp split: if_splits)
  from resume_page [OF this] Response show ?thesis by simp
qed (insert assms, auto simp add: page_useEffect search_onChange_def setFilterStatus_def
      setFilterBannerType_def prev_onClick_def next_onClick_def handleViewDetails_def
      handleStatusChange_def handleDelete_def effect_defs Let_def split: if_splits)

lemma step_click:
  assumes "step e w = Some w'" and "e = PrevClick \<or> e = NextClick"
  shows "totalPages (ui w') = totalPages (ui w)" and "1 < totalPages (ui w)"
proof -
  from assms have shown: "paginationShown (ui w)"
    by (auto split: if_splits)
  then show "1 < totalPages (ui w)"
    by (simp add: paginationShown_def)
  from assms show "totalPages (ui w') = totalPages (ui w)"
    by (auto simp add: page_useEffect prev_onClick_def next_onClick_def upd_def
          split: if_splits)
qed

lemma page_positive_step:
  assumes "1 \<le> currentPage (ui w)" and "step e w = Some w'"
  shows "1 \<le> currentPage (ui w')"
proof (cases "e = NextClick")
  case True
  then have "1 < totalPages (ui w)"
    using step_click(2) [OF assms(2)] by simp
  with assms(1) True step_page [OF assms(2)] show ?thesis
    by simp
next
  case False
  with assms(1) step_page [OF assms(2)] show ?thesis
    by (cases e) simp_all
qed

lemma page_positive_run:
  "1 \<le> currentPage (ui w) \<Longrightarrow> run es w = Some w' \<Longrightarrow> 1 \<le> currentPage (ui w')"
proof (induction es arbitrary: w)
  case Nil
  then show ?case by simp
next
  case (Cons e es)
  then show ?case
    by (auto split: option.splits dest: page_positive_step)
qed

lemma page_positive_mount: "1 \<le> currentPage (ui mount)"
  by (simp add: mount_def fetchSubmissions_def fetchStatistics_def effect_defs initial_state_def)

subsection \<open>What the two mutations do\<close>

text \<open>
  In both lemmas \<open>c\<close> is the state of the render in which the control was used, which
  \<open>step\<close> stores with the request in flight.  Sending the request and resuming after
  the answer leave the rows alone; an accepted answer sends the list request for \<open>c\<close>
  and a statistics request; a failure sends nothing and adds one error notification.
\<close>

lemma handleStatusChange_effects:
  "submissions (ui (handleStatusChange c i st w)) = submissions (ui w) \<and>
   sent (handleStatusChange c i st w) = sent w @ [PutStatus i st] \<and>
   submissions (ui (handleStatusChange_resume c r w)) = submissions (ui w) \<and>
   (success d \<longrightarrow>
      sent (handleStatusChange_resume c (Json d) w)
        = sent w @ [GetSubmissions (params c), GetStatistics]) \<and>
   (r = Rejected \<or> (\<exists>b. r = Json b \<and> \<not> success b) \<longrightarrow>
      sent (handleStatusChange_resume c r w) = sent w \<and>
      toasts (handleStatusChange_resume c r w) =
        toasts w @ [error_toast (case r of
                       Rejected \<Rightarrow> ''Failed to update status''
                     | Json b \<Rightarrow> or_default (error b) ''Failed to update status'')])"
  by (auto simp add: handleStatusChange_def handleStatusChange_resume_def fetchSubmissions_def
        fetchStatistics_def effect_defs Let_def split: fetch_result.splits)

lemma handleDelete_effects:
  "handleDelete c i False w = w \<and>
   sent (handleDelete c i True w) = sent w @ [DeleteSubmission i] \<and>
   (sent (handleDelete c i ok w) \<noteq> sent w \<longrightarrow> ok) \<and>
   submissions (ui (handleDelete c i ok w)) = submissions (ui w) \<and>
   submissions (ui (handleDelete_resume c r w)) = submissions (ui w) \<and>
   (success d \<longrightarrow>
      sent (handleDelete_resume c (Json d) w)
        = sent w @ [GetSubmissions (params c), GetStatistics]) \<and>
   (r = Rejected \<or> (\<exists>b. r = Json b \<and> \<not> success b) \<longrightarrow>
      sent (handleDelete_resume c r w) = sent w \<and>
      toasts (handleDelete_resume c r w) =
        toasts w @ [error_toast (case r of
                       Rejected \<Rightarrow> ''Failed to delete submission''
                     | Json b \<Rightarrow> or_default (error b) ''Failed to delete submission'')])"
  by (auto simp add: handleDelete_def handleDelete_resume_def fetchSubmissions_def
        fetchStatistics_def effect_defs Let_def split: fetch_result.splits)

lemma toString_23: "toString 23 = ''23''"
  by code_simp

section \<open>Specified properties\<close>

subsection \<open>C1: page after a search or filter change\<close>

text \<open>
  C1.  After a change made through the search box, the status filter or the banner-type
  filter the current page should be 1.  The search box's handler does set it
  (\<open>search_onChange_resets_page\<close>); the two selects are wired to the bare setters
  (\<open>setFilterStatus_page\<close>, \<open>setFilterBannerType_page\<close>).  Evaluated on the page: the admin
  is on page 3 of 3 and picks the status filter \<^verbatim>\<open>contacted\<close>, or the banner type
  \<^verbatim>\<open>commercial\<close>; the page stays 3.
\<close>

theorem C1_filter_change_keeps_page:
  "map_option filter_and_page (run (page3_trace @ [StatusFilterSelect ''contacted'']) mount)
     = Some (''contacted'', 3) \<and>
   map_option page_and_pages (run (page3_trace @ [BannerTypeFilterSelect ''commercial'']) mount)
     = Some (3, 3)"
  by code_simp

subsection \<open>C2: the page after a pagination click\<close>

text \<open>
  C2, as stated, at a concrete page: the late list response of \<open>stale_trace\<close> leaves the
  admin on page 5 with \<^verbatim>\<open>totalPages = 2\<close> and a non-empty table; the previous-page button
  is offered there and sets the page to 4, outside \<open>[1, totalPages]\<close>.
\<close>

theorem C2_previous_leaves_range:
  "run stale_trace mount = Some stale_world \<and>
   map_option page_and_pages (step PrevClick stale_world) = Some (4, 2) \<and>
   map_option page_in_range (step PrevClick stale_world) = Some False"
  unfolding stale_world_def by code_simp

text \<open>
  C2, amended.  There is no operation that takes an arbitrary page number.  Of the events
  of the page, the search box sets the page to 1, the previous button applies
  \<open>max 1 (page - 1)\<close>, the next button applies \<open>min totalPages (page + 1)\<close>, and no other
  event changes the page; the two buttons leave \<^verbatim>\<open>totalPages\<close> as it is.  In every state
  reached from mounting the page is at least 1.  Whenever the next button is offered,
  the page after it is within \<open>[1, totalPages]\<close>.  Whenever the previous button is
  offered, the page after it is at least 1, and it is within \<open>[1, totalPages]\<close> exactly
  when the page before was at most \<open>totalPages + 1\<close>.
\<close>

theorem C2_page_after_click:
  assumes "run es mount = Some w" and "step e w = Some w'"
  shows "1 \<le> currentPage (ui w) \<and>
         (e = NextClick \<longrightarrow>
            currentPage (ui w') = min (totalPages (ui w)) (currentPage (ui w) + 1) \<and>
            totalPages (ui w') = totalPages (ui w) \<and>
            page_in_range w') \<and>
         (e = PrevClick \<longrightarrow>
            currentPage (ui w') = max 1 (currentPage (ui w) - 1) \<and>
            totalPages (ui w') = totalPages (ui w) \<and>
            1 \<le> currentPage (ui w') \<and>
            (page_in_range w' \<longleftrightarrow> currentPage (ui w) \<le> totalPages (ui w) + 1)) \<and>
         (e = SearchInput v \<longrightarrow> currentPage (ui w') = 1) \<and>
         (e \<noteq> NextClick \<and> e \<noteq> PrevClick \<and> (\<forall>t. e \<noteq> SearchInput t) \<longrightarrow>
            currentPage (ui w') = currentPage (ui w))"
proof -
  have pos: "1 \<le> currentPage (ui w)"
    using page_positive_mount assms(1) by (rule page_positive_run)
  have nxt: "currentPage (ui w') = min (totalPages (ui w)) (currentPage (ui w) + 1) \<and>
             totalPages (ui w') = totalPages (ui w) \<and> page_in_range w'"
    if "e = NextClick"
    using that pos step_page [OF assms(2)] step_click [OF assms(2)]
    by (simp add: page_in_range_def)
  have prv: "currentPage (ui w') = max 1 (currentPage (ui w) - 1) \<and>
             totalPages (ui w') = totalPages (ui w) \<and> 1 \<le> currentPage (ui w') \<and>
             (page_in_range w' \<longleftrightarrow> currentPage (ui w) \<le> totalPages (ui w) + 1)"
    if "e = PrevClick"
    using that step_page [OF assms(2)] step_click [OF assms(2)]
    by (auto simp add: page_in_range_def)
  have srch: "currentPage (ui w') = 1" if "e = SearchInput v"
    using that step_page [OF assms(2)] by simp
  have other: "currentPage (ui w') = currentPage (ui w)"
    if "e \<noteq> NextClick" and "e \<noteq> PrevClick" and "\<forall>t. e \<noteq> SearchInput t"
    using that step_page [OF assms(2)] by (cases e) simp_all
  from pos nxt prv srch other show ?thesis
    by blast
qed

text \<open>
  C2 on page 2 of 3 (next gives page 3, previous page 1, a search the page 1, a status
  filter leaves page 2) and on page 5 with \<^verbatim>\<open>totalPages = 2\<close> (next lands on page 2,
  previous on page 4).
\<close>

theorem C2_page_after_click_witness:
  "map_option page_and_pages (step NextClick page2_world) = Some (3, 3) \<and>
   map_option page_and_pages (step PrevClick page2_world) = Some (1, 3) \<and>
   page_in_range (after_event NextClick page2_world) \<and>
   page_in_range (after_event PrevClick page2_world) \<and>
   page_in_range (after_event NextClick stale_world) \<and>
   \<not> page_in_range (after_event PrevClick stale_world) \<and>
   currentPage (ui (after_event (SearchInput ''mall'') page2_world)) = 1 \<and>
   currentPage (ui (after_event (StatusFilterSelect ''new'') page2_world)) = 2"
proof -
  have r2: "run (take 3 page3_trace) mount = Some page2_world"
    unfolding page2_world_def by code_simp
  have rs: "run stale_trace mount = Some stale_world"
    unfolding stale_world_def by code_simp
  have s2: "step NextClick page2_world = Some (after_event NextClick page2_world)"
    "step PrevClick page2_world = Some (after_event PrevClick page2_world)"
    "step (SearchInput ''mall'') page2_world = Some (after_event (SearchInput ''mall'') page2_world)"
    "step (StatusFilterSelect ''new'') page2_world
       = Some (after_event (StatusFilterSelect ''new'') page2_world)"
    unfolding page2_world_def after_event_def by code_simp+
  have ss: "step NextClick stale_world = Some (after_event NextClick stale_world)"
    "step PrevClick stale_world = Some (after_event PrevClick stale_world)"
    unfolding stale_world_def after_event_def by code_simp+
  have p: "currentPage (ui page2_world) = 2" "totalPages (ui page2_world) = 3"
    "currentPage (ui stale_world) = 5" "totalPages (ui stale_world) = 2"
    unfolding page2_world_def stale_world_def by code_simp+
  show ?thesis
    using C2_page_after_click [OF r2 s2(1)] C2_page_after_click [OF r2 s2(2)]
      C2_page_after_click [OF rs ss(1)] C2_page_after_click [OF rs ss(2)]
      C2_page_after_click [OF r2 s2(3), of "''mall''"] C2_page_after_click [OF r2 s2(4)]
      s2 p
    by (simp add: page_and_pages_def)
qed

subsection \<open>C3: the query string of the list request\<close>

text \<open>
  C3.  \<^verbatim>\<open>fetchSubmissions\<close> sends one list request whose parameters are \<^verbatim>\<open>page\<close> (the
  current page) and \<^verbatim>\<open>limit=10\<close>, followed by \<^verbatim>\<open>search\<close>, \<^verbatim>\<open>status\<close> and \<^verbatim>\<open>bannerType\<close>,
  each present exactly when its field is not empty.
\<close>

theorem C3_refresh_query_parameters:
  "sent (fetchSubmissions c w) = sent w @ [GetSubmissions (params c)] \<and>
   params c =
     [(''page'', toString (currentPage c)), (''limit'', ''10'')]
     @ (if search c = [] then [] else [(''search'', search c)])
     @ (if filterStatus c = [] then [] else [(''status'', filterStatus c)])
     @ (if filterBannerType c = [] then [] else [(''bannerType'', filterBannerType c)])"
  by (simp add: fetchSubmissions_def params_def effect_defs Let_def)

text \<open>
  C3 for the first page with the status filter \<^verbatim>\<open>contacted\<close> and nothing else, and for
  page 23 with a search text and a banner type.
\<close>

theorem C3_refresh_query_witness:
  "sent (fetchSubmissions (initial_state\<lparr>filterStatus := ''contacted''\<rparr>) mount)
     = [GetSubmissions [(''page'', ''1''), (''limit'', ''10'')], GetStatistics,
        GetSubmissions [(''page'', ''1''), (''limit'', ''10''), (''status'', ''contacted'')]] \<and>
   params (initial_state\<lparr>search := ''mall'', filterBannerType := ''commercial'',
                          currentPage := 23\<rparr>)
     = [(''page'', ''23''), (''limit'', ''10''), (''search'', ''mall''),
        (''bannerType'', ''commercial'')]"
  using C3_refresh_query_parameters [of "initial_state\<lparr>filterStatus := ''contacted''\<rparr>" mount]
    C3_refresh_query_parameters
      [of "initial_state\<lparr>search := ''mall'', filterBannerType := ''commercial'',
                           currentPage := 23\<rparr>" mount]
  by (simp add: mount_def fetchSubmissions_def fetchStatistics_def params_def effect_defs
        Let_def initial_state_def toString_1 toString_23)

subsection \<open>C4: a failed list fetch\<close>



subsection \<open>C5: changing a row's status\<close>

text \<open>
  C5.  A status change should, once the store has accepted it, refresh the list for the
  query now displayed.  The rows are indeed never written locally and a failure adds
  one notification (\<open>handleStatusChange_effects\<close>), but the continuation calls the
  \<^verbatim>\<open>fetchSubmissions\<close> of the render in which the select was used, where the effect hook
  always calls the one of the current render.  Evaluated on the page: the admin changes
  the status of a row on page 1, goes on to page 2 while the update is in flight, and
  the update is accepted; the list request then sent asks for page 1 although the
  query displayed is page 2.
\<close>

theorem C5_refresh_uses_clicked_render:
  "map_option last_two_sent (run status_race_trace mount)
     = Some [GetSubmissions [(''page'', ''1''), (''limit'', ''10'')], GetStatistics] \<and>
   map_option current_query (run status_race_trace mount)
     = Some [(''page'', ''2''), (''limit'', ''10'')]"
  by code_simp

subsection \<open>C6: a failed statistics fetch\<close>

text \<open>
  C6, as stated, at a concrete answer: a statistics response with \<^verbatim>\<open>success: false\<close>
  is not logged; the console is as it was.
\<close>

theorem C6_refusal_is_not_logged:
  "console (fetchStatistics_resume (refused (Some ''Unauthorized'')) mount) = console mount"
  by (simp add: fetchStatistics_resume_def refused_def)

text \<open>
  C6, amended.  A failed statistics fetch adds no notification, leaves every state cell
  (the statistics among them) and the requests in flight as they were, and does not
  change what the answer to the list request does to the state and the notifications.
  A rejected promise is logged to the console; a body whose \<^verbatim>\<open>success\<close> is false is
  dropped without a log entry.
\<close>

theorem C6_statistics_failure:
  assumes "r = Rejected \<or> (\<exists>d. r = Json d \<and> \<not> success d)"
  shows "toasts (fetchStatistics_resume r w) = toasts w \<and>
         ui (fetchStatistics_resume r w) = ui w \<and>
         sent (fetchStatistics_resume r w) = sent w \<and>
         inflight (fetchStatistics_resume r w) = inflight w \<and>
         console (fetchStatistics_resume r w) =
           (if r = Rejected then console w @ [''Error fetching statistics:''] else console w) \<and>
         ui (fetchSubmissions_resume r' (fetchStatistics_resume r w)) =
           ui (fetchSubmissions_resume r' w) \<and>
         toasts (fetchSubmissions_resume r' (fetchStatistics_resume r w)) =
           toasts (fetchSubmissions_resume r' w)"
  using assms
  by (auto simp add: fetchStatistics_resume_def fetchSubmissions_resume_def
        fetchSubmissions_catch_def effect_defs Let_def split: fetch_result.splits option.splits)

text \<open>C6 for a rejected statistics request right after mounting.\<close>

theorem C6_statistics_failure_witness:
  "toasts (fetchStatistics_resume Rejected mount) = [] \<and>
   statistics (ui (fetchStatistics_resume Rejected mount)) = None \<and>
   inflight (fetchStatistics_resume Rejected mount) = [ListFetch, StatisticsFetch] \<and>
   console (fetchStatistics_resume Rejected mount) = [''Error fetching statistics:'']"
  using C6_statistics_failure [of Rejected mount]
  by (simp add: mount_def fetchSubmissions_def fetchStatistics_def effect_defs initial_state_def)

subsection \<open>C7: deleting a row\<close>

text \<open>
  C7.  A delete should be sent only after the confirmation and, once the store has
  accepted it, refresh the list for the query now displayed.  The confirmation gate
  holds, the rows are never written locally and a failure adds one notification
  (\<open>handleDelete_effects\<close>), but the continuation calls the \<^verbatim>\<open>fetchSubmissions\<close> of the
  render in which the button was clicked, as that of \<^verbatim>\<open>handleStatusChange\<close> does.
  Evaluated on the page: the admin confirms the deletion of a row on page 1, goes on to
  page 2 while the deletion is in flight, and the deletion is accepted; the list
  request then sent asks for page 1 although the query displayed is page 2.
\<close>

theorem C7_refresh_uses_clicked_render:
  "map_option last_two_sent (run delete_race_trace mount)
     = Some [GetSubmissions [(''page'', ''1''), (''limit'', ''10'')], GetStatistics] \<and>
   map_option current_query (run delete_race_trace mount)
     = Some [(''page'', ''2''), (''limit'', ''10'')]"
  by code_simp

subsection \<open>C8: the two global flags\<close>

text \<open>
  C8.  In every state the page can reach from mounting: \<^verbatim>\<open>updating\<close> is true exactly
  while a status update is in flight, and then the status select of every displayed
  row is disabled; \<^verbatim>\<open>deleting\<close> is true exactly while a deletion is in flight, and then
  the delete button of every displayed row is disabled.  The answer to a status update
  (to a deletion), accepted or not, is taken, clears the flag and leaves none in
  flight.  After \<open>busy_trace\<close> a status update and a deletion are in flight together.
\<close>

theorem C8_global_flags:
  assumes "run es mount = Some w"
  shows "(updating (ui w) \<longleftrightarrow> 0 < statusUpdatesInFlight w) \<and>
         (0 < statusUpdatesInFlight w \<longrightarrow>
            (\<forall>x \<in> set (tableRows (ui w)). statusSelectDisabled x)) \<and>
         (deleting (ui w) \<longleftrightarrow> 0 < deletionsInFlight w) \<and>
         (0 < deletionsInFlight w \<longrightarrow>
            (\<forall>x \<in> set (tableRows (ui w)). deleteDisabled x)) \<and>
         (i < length (inflight w) \<and> isStatusUpdate (inflight w ! i) \<longrightarrow>
            (\<exists>w'. step (Response i (MutationResponse r)) w = Some w' \<and>
                  \<not> updating (ui w') \<and> statusUpdatesInFlight w' = 0)) \<and>
         (i < length (inflight w) \<and> isDeletion (inflight w ! i) \<longrightarrow>
            (\<exists>w'. step (Response i (MutationResponse r)) w = Some w' \<and>
                  \<not> deleting (ui w') \<and> deletionsInFlight w' = 0)) \<and>
         run busy_trace mount = Some busy_world \<and>
         0 < statusUpdatesInFlight busy_world \<and> 0 < deletionsInFlight busy_world"
proof -
  have inv: "flags_match w"
    using flags_match_mount assms by (rule flags_match_run)
  have u: "updating (ui w) \<longleftrightarrow> 0 < statusUpdatesInFlight w"
    using inv by (simp add: flags_match_def split: if_splits)
  have d: "deleting (ui w) \<longleftrightarrow> 0 < deletionsInFlight w"
    using inv by (simp add: flags_match_def split: if_splits)
  have su: "\<exists>w'. step (Response i (MutationResponse r)) w = Some w' \<and>
                  \<not> updating (ui w') \<and> statusUpdatesInFlight w' = 0"
    if i: "i < length (inflight w)" and k: "isStatusUpdate (inflight w ! i)"
  proof -
    from k obtain c where c: "inflight w ! i = StatusUpdate c"
      by (cases "inflight w ! i") simp_all
    show ?thesis
      using i c status_answer(2) [OF inv i c, of r]
      by (simp add: handleStatusChange_resume_flags)
  qed
  have sd: "\<exists>w'. step (Response i (MutationResponse r)) w = Some w' \<and>
                  \<not> deleting (ui w') \<and> deletionsInFlight w' = 0"
    if i: "i < length (inflight w)" and k: "isDeletion (inflight w ! i)"
  proof -
    from k obtain c where c: "inflight w ! i = Deletion c"
      by (cases "inflight w ! i") simp_all
    show ?thesis
      using i c delete_answer(2) [OF inv i c, of r]
      by (simp add: handleDelete_resume_flags)
  qed
  show ?thesis
    using u d su sd rows_disabled [of "ui w"] busy_reached busy_both by blast
qed

text \<open>
  C8 after \<open>busy_trace\<close>: one status update and one deletion in flight, both flags set,
  the one displayed row has both controls disabled; a refusal of the status update
  (request 1 in flight) leaves no status update in flight, and an accepted deletion
  (request 2 in flight) leaves no deletion in flight.
\<close>

theorem C8_global_flags_witness:
  "run busy_trace mount = Some busy_world \<and>
   statusUpdatesInFlight busy_world = 1 \<and> deletionsInFlight busy_world = 1 \<and>
   updating (ui busy_world) \<and> deleting (ui busy_world) \<and>
   tableRows (ui busy_world) \<noteq> [] \<and>
   list_all statusSelectDisabled (tableRows (ui busy_world)) \<and>
   list_all deleteDisabled (tableRows (ui busy_world)) \<and>
   map_option statusUpdatesInFlight
     (step (Response 1 (MutationResponse (refused None))) busy_world) = Some 0 \<and>
   map_option deletionsInFlight
     (step (Response 2 (MutationResponse accepted)) busy_world) = Some 0"
proof -
  have r: "run busy_trace mount = Some busy_world"
    unfolding busy_world_def by code_simp
  have n: "statusUpdatesInFlight busy_world = 1" "deletionsInFlight busy_world = 1"
    "tableRows (ui busy_world) \<noteq> []"
    unfolding busy_world_def by code_simp+
  have i: "1 < length (inflight busy_world) \<and> isStatusUpdate (inflight busy_world ! 1)"
    unfolding busy_world_def by code_simp
  have j: "2 < length (inflight busy_world) \<and> isDeletion (inflight busy_world ! 2)"
    unfolding busy_world_def by code_simp
  show ?thesis
    using C8_global_flags [OF r, of 1 "refused None"] C8_global_flags [OF r, of 2 accepted] n i j
    by (auto simp add: list_all_iff)
qed

subsection \<open>C9: the displayed range\<close>

text \<open>
  C9.  The line under the table shows \<open>(page - 1) * 10 + 1\<close> and \<open>min (page * 10) total\<close>:
  the spec's \<open>offsetStart\<close> and \<open>offsetEnd\<close> at page size 10.  For 23 rows, page 2 shows
  11 to 20 and page 3 shows 21 to 23.
\<close>

theorem C9_display_range:
  "showingFrom s = spec_offsetStart (currentPage s) 10 \<and>
   showingTo s = spec_offsetEnd (currentPage s) 10 (total s) \<and>
   showingFrom s = (currentPage s - 1) * 10 + 1 \<and>
   showingTo s = min (currentPage s * 10) (total s) \<and>
   showingFrom (s\<lparr>currentPage := 2, total := 23\<rparr>) = 11 \<and>
   showingTo (s\<lparr>currentPage := 2, total := 23\<rparr>) = 20 \<and>
   showingFrom (s\<lparr>currentPage := 3, total := 23\<rparr>) = 21 \<and>
   showingTo (s\<lparr>currentPage := 3, total := 23\<rparr>) = 23"
  by (simp add: showingFrom_def showingTo_def spec_offsetStart_def spec_offsetEnd_def)

text \<open>C9 on page 2 of 3 with 23 rows, as reached from the first page.\<close>

theorem C9_display_range_witness:
  "currentPage (ui page2_world) = 2 \<and> total (ui page2_world) = 23 \<and>
   showingFrom (ui page2_world) = 11 \<and> showingTo (ui page2_world) = 20"
proof -
  have p: "currentPage (ui page2_world) = 2" "total (ui page2_world) = 23"
    unfolding page2_world_def by code_simp+
  with C9_display_range [of "ui page2_world"] show ?thesis
    by simp
qed

subsection \<open>C10: submitting the lead-capture form\<close>

text \<open>
  C10.  When the six fields \<^verbatim>\<open>fullName\<close>, \<^verbatim>\<open>email\<close>, \<^verbatim>\<open>phone\<close>, \<^verbatim>\<open>projectName\<close>,
  \<^verbatim>\<open>location\<close> and \<^verbatim>\<open>description\<close> are all non-empty, \<^verbatim>\<open>handleSubmit\<close> sends the POST with
  the form data; \<^verbatim>\<open>projectType\<close> and \<^verbatim>\<open>budget\<close> play no part.  When one of the six is
  empty it sends nothing, adds exactly one error notification and leaves the form
  state as it was.
\<close>

theorem C10_submit_requires_six_fields:
  "(fullName (formData (form_ui w)) \<noteq> [] \<and> email (formData (form_ui w)) \<noteq> [] \<and>
    phone (formData (form_ui w)) \<noteq> [] \<and> projectName (formData (form_ui w)) \<noteq> [] \<and>
    location (formData (form_ui w)) \<noteq> [] \<and> description (formData (form_ui w)) \<noteq> []
    \<longrightarrow> form_sent (handleSubmit (form_ui w) w)
          = form_sent w @ [PostSubmission (formData (form_ui w))]) \<and>
   (fullName (formData (form_ui w)) = [] \<or> email (formData (form_ui w)) = [] \<or>
    phone (formData (form_ui w)) = [] \<or> projectName (formData (form_ui w)) = [] \<or>
    location (formData (form_ui w)) = [] \<or> description (formData (form_ui w)) = []
    \<longrightarrow> form_sent (handleSubmit (form_ui w) w) = form_sent w \<and>
        form_toasts (handleSubmit (form_ui w) w)
          = form_toasts w @ [error_toast ''Please fill in all required fields''] \<and>
        form_ui (handleSubmit (form_ui w) w) = form_ui w)"
  by (auto simp add: handleSubmit_def form_upd_def form_toast_def Let_def)

text \<open>
  C10 for a form with the six fields filled and \<^verbatim>\<open>projectType\<close> and \<^verbatim>\<open>budget\<close> empty, and
  for the same form with the e-mail address removed.
\<close>

theorem C10_submit_witness:
  "form_sent (handleSubmit (form_ui (form_world_of sample_form)) (form_world_of sample_form))
     = [PostSubmission sample_form] \<and>
   form_sent (handleSubmit (form_ui (form_world_of (sample_form\<lparr>email := []\<rparr>)))
                (form_world_of (sample_form\<lparr>email := []\<rparr>))) = [] \<and>
   form_toasts (handleSubmit (form_ui (form_world_of (sample_form\<lparr>email := []\<rparr>)))
                  (form_world_of (sample_form\<lparr>email := []\<rparr>)))
     = [error_toast ''Please fill in all required fields'']"
  using C10_submit_requires_six_fields [of "form_world_of sample_form"]
    C10_submit_requires_six_fields [of "form_world_of (sample_form\<lparr>email := []\<rparr>)"]
  by (simp add: form_world_of_def sample_form_def initial_form_state_def)

end
